theory Spec2Isabelle
  imports Complex_Main
begin

section \<open>Errors\<close>

text \<open>
  The Python exception classes the modelled code can raise. A function that may raise
  returns \<open>error + 'a\<close>, with \<open>Inl\<close> for the raised exception.
\<close>

datatype error = IndexError | ValueError | RuntimeError

section \<open>The \<open>\<lambda>\<close>-return estimator\<close>

text \<open>
  \<open>lambda_return\<close> of \<^verbatim>\<open>utils.py\<close>. The time dimension is the list; each entry is the value of
  one batch element at that step (all tensor operations of the function are elementwise
  across the batch), and floating-point numbers are read as reals. \<open>bootstrap\<close> is the
  value of that batch element after the last step, so \<^verbatim>\<open>bootstrap[None]\<close> is the
  one-element sequence.
\<close>

text \<open>Elementwise binary operation on one-dimensional tensors, with torch's broadcasting:
  equal lengths, or one operand of length one.\<close>

definition broadcast1 :: "(real \<Rightarrow> real \<Rightarrow> real) \<Rightarrow> real list \<Rightarrow> real list \<Rightarrow> error + real list" where
  "broadcast1 f xs ys =
     (if length xs = length ys then Inr (map2 f xs ys)
      else if length xs = 1 then Inr (map (f (hd xs)) ys)
      else if length ys = 1 then Inr (map (\<lambda>x. f x (hd ys)) xs)
      else Inl RuntimeError)"

text \<open>\<^verbatim>\<open>torch.stack(outputs, 0)\<close>: an empty list of tensors is refused.\<close>

definition stack1 :: "real list \<Rightarrow> error + real list" where
  "stack1 outputs = (if outputs = [] then Inl RuntimeError else Inr outputs)"

text \<open>The loop \<^verbatim>\<open>for index in indices\<close>, carrying \<open>last\<close> and \<open>outputs\<close>.\<close>

fun lambda_loop ::
  "real list \<Rightarrow> real list \<Rightarrow> real \<Rightarrow> nat list \<Rightarrow> real \<Rightarrow> real list \<Rightarrow> error + real list" where
  "lambda_loop inputs discount_tensor lambda' [] last_val outputs = Inr outputs"
| "lambda_loop inputs discount_tensor lambda' (index # indices) last_val outputs =
     (if index < length inputs \<and> index < length discount_tensor then
        (let inp = inputs ! index;
             disc = discount_tensor ! index;
             last_new = inp + disc * lambda' * last_val
         in lambda_loop inputs discount_tensor lambda' indices last_new (outputs @ [last_new]))
      else Inl IndexError)"

definition lambda_return ::
  "real list \<Rightarrow> real list \<Rightarrow> real \<Rightarrow> real \<Rightarrow> real \<Rightarrow> error + real list" where
  "lambda_return imged_reward value_pred bootstrap discount lambda' =
     (let next_values = drop 1 value_pred @ [bootstrap];
          discount_tensor = map (\<lambda>one. discount * one) (map (\<lambda>r. 1) imged_reward)
      in case broadcast1 (*) discount_tensor next_values of
           Inl e \<Rightarrow> Inl e
         | Inr dn \<Rightarrow>
             (case broadcast1 (+) imged_reward (map (\<lambda>x. x * (1 - lambda')) dn) of
                Inl e \<Rightarrow> Inl e
              | Inr inputs \<Rightarrow>
                  (case lambda_loop inputs discount_tensor lambda'
                          (rev [0..<length inputs]) bootstrap [] of
                     Inl e \<Rightarrow> Inl e
                   | Inr outputs \<Rightarrow> stack1 (rev outputs))))"

subsection \<open>The recurrence as the specification words it\<close>

definition spec_next_values :: "real list \<Rightarrow> real \<Rightarrow> nat \<Rightarrow> nat \<Rightarrow> real" where
  "spec_next_values V b N i = (if i < N - 1 then V ! (i + 1) else b)"

definition spec_target :: "real list \<Rightarrow> real list \<Rightarrow> real \<Rightarrow> real \<Rightarrow> real \<Rightarrow> nat \<Rightarrow> real" where
  "spec_target R V b \<gamma> l i = R ! i + \<gamma> * spec_next_values V b (length R) i * (1 - l)"

text \<open>\<open>spec_last R V b \<gamma> l k\<close> is the value of \<open>last\<close> after \<open>k\<close> rounds of the backward
  recurrence, that is after the indices \<open>N-1\<close> down to \<open>N-k\<close> have been visited.\<close>

fun spec_last :: "real list \<Rightarrow> real list \<Rightarrow> real \<Rightarrow> real \<Rightarrow> real \<Rightarrow> nat \<Rightarrow> real" where
  "spec_last R V b \<gamma> l 0 = b"
| "spec_last R V b \<gamma> l (Suc k) =
     spec_target R V b \<gamma> l (length R - 1 - k) + \<gamma> * l * spec_last R V b \<gamma> l k"

definition spec_G :: "real list \<Rightarrow> real list \<Rightarrow> real \<Rightarrow> real \<Rightarrow> real \<Rightarrow> nat \<Rightarrow> real" where
  "spec_G R V b \<gamma> l i = spec_last R V b \<gamma> l (length R - i)"

section \<open>Tensors\<close>

text \<open>
  A tensor is its shape and its entries in row-major order; floating-point entries are
  read as reals. Strides, devices, dtypes and the autograd graph are not part of the model,
  so \<^verbatim>\<open>detach\<close> is the identity on values.
\<close>

datatype tensor = Tensor (shape: "nat list") (data: "real list")

definition well_formed :: "tensor \<Rightarrow> bool" where
  "well_formed x = (length (data x) = prod_list (shape x))"

definition detach :: "tensor \<Rightarrow> tensor" where
  "detach x = x"

text \<open>\<^verbatim>\<open>torch.empty(0)\<close>, the placeholder of the rollout buffers.\<close>

definition empty0 :: tensor where
  "empty0 = Tensor [0] []"

text \<open>The slices of a tensor along dimension 0, each as its row-major entries.\<close>

definition rows :: "tensor \<Rightarrow> real list list" where
  "rows x =
     (let k = prod_list (tl (shape x))
      in map (\<lambda>i. take k (drop (i * k) (data x))) [0..<hd (shape x)])"

text \<open>\<^verbatim>\<open>x[k]\<close>: slice \<open>k\<close> along dimension 0.\<close>

definition select0 :: "tensor \<Rightarrow> nat \<Rightarrow> tensor" where
  "select0 x k =
     (let n = prod_list (tl (shape x))
      in Tensor (tl (shape x)) (take n (drop (k * n) (data x))))"

text \<open>\<^verbatim>\<open>x.view([-1] + rest)\<close>: the size \<open>-1\<close> is inferred from the number of entries;
  it cannot be inferred when the other sizes multiply to zero, and the number of entries must
  be a multiple of the other sizes.\<close>

definition view_infer :: "tensor \<Rightarrow> nat list \<Rightarrow> error + tensor" where
  "view_infer x rest =
     (if prod_list rest = 0 then Inl RuntimeError
      else if prod_list (shape x) mod prod_list rest \<noteq> 0 then Inl RuntimeError
      else Inr (Tensor ((prod_list (shape x) div prod_list rest) # rest) (data x)))"

text \<open>\<^verbatim>\<open>torch.cat([x, y], dim=1)\<close>. A zero-dimensional tensor is refused; a tensor of shape
  \<open>[0]\<close> is skipped (torch's legacy rule); dimension 1 must exist in the first tensor that
  is not skipped; all other sizes must agree.\<close>

definition cat_dim1 :: "tensor \<Rightarrow> tensor \<Rightarrow> error + tensor" where
  "cat_dim1 x y =
     (if shape x = [] \<or> shape y = [] then Inl RuntimeError
      else if shape x = [0] \<and> shape y = [0] then Inr (Tensor [0] [])
      else if shape x = [0] then (if length (shape y) < 2 then Inl IndexError else Inr y)
      else if length (shape x) < 2 then Inl IndexError
      else if shape y = [0] then Inr x
      else if length (shape y) \<noteq> length (shape x) \<or> hd (shape y) \<noteq> hd (shape x)
              \<or> drop 2 (shape y) \<noteq> drop 2 (shape x) then Inl RuntimeError
      else Inr (Tensor (hd (shape x) # (shape x ! 1 + shape y ! 1) # drop 2 (shape x))
                  (concat (map2 (@) (rows x) (rows y)))))"

text \<open>\<^verbatim>\<open>a, b = torch.chunk(x, 2, dim=1)\<close>. The chunk size is \<open>\<lceil>d / 2\<rceil>\<close> for the size
  \<open>d\<close> of dimension 1; a dimension of size 1 gives a single chunk, which cannot be
  unpacked into two names; a dimension of size 0 gives two empty chunks. A zero-dimensional
  tensor cannot be chunked at all; a one-dimensional one has no dimension 1.\<close>

definition chunk2_dim1 :: "tensor \<Rightarrow> error + tensor \<times> tensor" where
  "chunk2_dim1 x =
     (if shape x = [] then Inl RuntimeError
      else if length (shape x) < 2 then Inl IndexError
      else
        (let n = hd (shape x);
             d = shape x ! 1;
             rest = drop 2 (shape x);
             inner = prod_list rest;
             split_size = (d + 1) div 2
         in if d = 1 then Inl ValueError
            else Inr (Tensor (n # split_size # rest)
                        (concat (map (take (split_size * inner)) (rows x))),
                      Tensor (n # (d - split_size) # rest)
                        (concat (map (drop (split_size * inner)) (rows x))))))"

text \<open>\<^verbatim>\<open>F.softplus\<close> with its defaults \<open>beta = 1\<close>, \<open>threshold = 20\<close>.\<close>

definition softplus :: "real \<Rightarrow> real" where
  "softplus x = (if x > 20 then x else ln (1 + exp x))"

definition softplus_tensor :: "tensor \<Rightarrow> tensor" where
  "softplus_tensor x = Tensor (shape x) (map softplus (data x))"

text \<open>Tensor plus a Python float.\<close>

definition add_scalar :: "tensor \<Rightarrow> real \<Rightarrow> tensor" where
  "add_scalar x c = Tensor (shape x) (map (\<lambda>v. v + c) (data x))"

text \<open>Elementwise binary operations with broadcasting: the shapes are aligned at the
  right, the shorter is padded with ones, and two sizes are compatible when they are equal
  or one of them is 1.\<close>

definition pad_shape :: "nat \<Rightarrow> nat list \<Rightarrow> nat list" where
  "pad_shape r sh = replicate (r - length sh) 1 @ sh"

fun broadcast_dims :: "nat list \<Rightarrow> nat list \<Rightarrow> nat list option" where
  "broadcast_dims [] [] = Some []"
| "broadcast_dims (m # ms) (n # ns) =
     (if m = n \<or> n = 1 then map_option ((#) m) (broadcast_dims ms ns)
      else if m = 1 then map_option ((#) n) (broadcast_dims ms ns)
      else None)"
| "broadcast_dims ms ns = None"

fun expand_data :: "nat list \<Rightarrow> nat list \<Rightarrow> real list \<Rightarrow> real list" where
  "expand_data (m # ms) (n # ns) d =
     (if m = n
      then concat (map (\<lambda>i. expand_data ms ns (take (prod_list ms) (drop (i * prod_list ms) d)))
                     [0..<m])
      else concat (replicate n (expand_data ms ns d)))"
| "expand_data ms ns d = d"

definition binop :: "(real \<Rightarrow> real \<Rightarrow> real) \<Rightarrow> tensor \<Rightarrow> tensor \<Rightarrow> error + tensor" where
  "binop f x y =
     (let r = max (length (shape x)) (length (shape y));
          sx = pad_shape r (shape x);
          sy = pad_shape r (shape y)
      in case broadcast_dims sx sy of
           None \<Rightarrow> Inl RuntimeError
         | Some s \<Rightarrow>
             Inr (Tensor s (map2 f (expand_data sx s (data x)) (expand_data sy s (data y)))))"

text \<open>\<^verbatim>\<open>torch.stack(xs, dim=0)\<close>: the list must not be empty and all shapes must agree.\<close>

definition stack0 :: "tensor list \<Rightarrow> error + tensor" where
  "stack0 xs =
     (case xs of
        [] \<Rightarrow> Inl RuntimeError
      | x # rest \<Rightarrow>
          if list_all (\<lambda>y. shape y = shape x) rest
          then Inr (Tensor (length xs # shape x) (concat (map data xs)))
          else Inl RuntimeError)"

text \<open>The global random number generator, as explicit state: a stream of reals and the
  number of them handed out so far. \<^verbatim>\<open>torch.randn_like(x)\<close> returns a tensor of the shape of
  \<open>x\<close> and leaves a later state behind. Which values torch hands out, and how it advances
  its state, are outside the model: none of the claims below depends on them.\<close>

datatype generator = Generator (draws: "nat \<Rightarrow> real") (consumed: nat)

definition randn_like :: "generator \<Rightarrow> tensor \<Rightarrow> tensor \<times> generator" where
  "randn_like g x =
     (let n = prod_list (shape x)
      in (Tensor (shape x) (map (draws g) [consumed g..<consumed g + n]),
          Generator (draws g) (consumed g + n)))"

text \<open>Reading and writing a Python list at a non-negative index.\<close>

definition list_get :: "'a list \<Rightarrow> nat \<Rightarrow> error + 'a" where
  "list_get xs i = (if i < length xs then Inr (xs ! i) else Inl IndexError)"

definition list_set :: "'a list \<Rightarrow> nat \<Rightarrow> 'a \<Rightarrow> error + 'a list" where
  "list_set xs i v = (if i < length xs then Inr (xs[i := v]) else Inl IndexError)"

section \<open>The imagination rollout\<close>

text \<open>
  The policy and the transition model are external collaborators: each of their layers is
  a function on tensors, deterministic and returning normally, and \<open>min_std_dev\<close> is a
  Python float.
\<close>

record policy =
  get_action :: "tensor \<Rightarrow> tensor \<Rightarrow> tensor"

record transition_model =
  act_fn :: "tensor \<Rightarrow> tensor"
  fc_embed_state_action :: "tensor \<Rightarrow> tensor"
  rnn :: "tensor \<Rightarrow> tensor \<Rightarrow> tensor"
  fc_embed_belief_prior :: "tensor \<Rightarrow> tensor"
  fc_state_prior :: "tensor \<Rightarrow> tensor"
  min_std_dev :: real

text \<open>\<^verbatim>\<open>def flatten(x): return x.view([-1]+list(x.size()[2:]))\<close>\<close>

definition flatten :: "tensor \<Rightarrow> error + tensor" where
  "flatten x = view_infer x (drop 2 (shape x))"

text \<open>The state threaded through the loop: the generator and the four buffers
  \<open>beliefs\<close>, \<open>prior_states\<close>, \<open>prior_means\<close>, \<open>prior_std_devs\<close>.\<close>

type_synonym buffers = "generator \<times> tensor list \<times> tensor list \<times> tensor list \<times> tensor list"

text \<open>Sequencing of computations that may raise: the first exception ends the
  computation.\<close>

definition and_then :: "error + 'a \<Rightarrow> ('a \<Rightarrow> error + 'b) \<Rightarrow> error + 'b" where
  "and_then m f = (case m of Inl e \<Rightarrow> Inl e | Inr x \<Rightarrow> f x)"

text \<open>One round of \<^verbatim>\<open>for t in range(T - 1)\<close>.\<close>

definition imagine_step ::
  "policy \<Rightarrow> transition_model \<Rightarrow> nat \<Rightarrow> buffers \<Rightarrow> error + buffers" where
  "imagine_step pol tm t st =
     (case st of (g, beliefs, prior_states, prior_means, prior_std_devs) \<Rightarrow>
      and_then (list_get prior_states t) (\<lambda>state.
      and_then (list_get beliefs t) (\<lambda>belief.
      let actions = get_action pol (detach belief) (detach state) in
      and_then (cat_dim1 state actions) (\<lambda>state_actions.
      let hidden = act_fn tm (fc_embed_state_action tm state_actions) in
      and_then (list_set beliefs (t + 1) (rnn tm hidden belief)) (\<lambda>beliefs'.
      and_then (list_get beliefs' (t + 1)) (\<lambda>belief'.
      let hidden = act_fn tm (fc_embed_belief_prior tm belief') in
      and_then (chunk2_dim1 (fc_state_prior tm hidden)) (\<lambda>(mean, prior_std_dev).
      and_then (list_set prior_means (t + 1) mean) (\<lambda>prior_means'.
      and_then (list_set prior_std_devs (t + 1)
                  (add_scalar (softplus_tensor prior_std_dev) (min_std_dev tm)))
        (\<lambda>prior_std_devs'.
      and_then (list_get prior_means' (t + 1)) (\<lambda>mean'.
      and_then (list_get prior_std_devs' (t + 1)) (\<lambda>std'.
      case randn_like g mean' of (noise, g') \<Rightarrow>
      and_then (binop (*) std' noise) (\<lambda>scaled.
      and_then (binop (+) mean' scaled) (\<lambda>state'.
      and_then (list_set prior_states (t + 1) state') (\<lambda>prior_states'.
      Inr (g', beliefs', prior_states', prior_means', prior_std_devs')))))))))))))))"

fun imagine_loop ::
  "policy \<Rightarrow> transition_model \<Rightarrow> nat list \<Rightarrow> buffers \<Rightarrow> error + buffers" where
  "imagine_loop pol tm [] st = Inr st"
| "imagine_loop pol tm (t # ts) st =
     and_then (imagine_step pol tm t st) (imagine_loop pol tm ts)"

text \<open>\<open>imagine_ahead\<close>; the generator is the global one of the tensor library, so it is an
  argument and the generator left behind is returned with the trajectory.\<close>

definition imagine_ahead ::
  "generator \<Rightarrow> tensor \<Rightarrow> tensor \<Rightarrow> policy \<Rightarrow> transition_model \<Rightarrow> int
     \<Rightarrow> error + (tensor list \<times> generator)" where
  "imagine_ahead g prev_state prev_belief pol tm planning_horizon =
     and_then (flatten prev_belief) (\<lambda>prev_belief'.
     and_then (flatten prev_state) (\<lambda>prev_state'.
     let T = planning_horizon;
         beliefs = replicate (nat T) empty0;
         prior_states = replicate (nat T) empty0;
         prior_means = replicate (nat T) empty0;
         prior_std_devs = replicate (nat T) empty0
     in
     and_then (list_set beliefs 0 prev_belief') (\<lambda>beliefs.
     and_then (list_set prior_states 0 prev_state') (\<lambda>prior_states.
     and_then (imagine_loop pol tm [0..<nat (T - 1)]
                 (g, beliefs, prior_states, prior_means, prior_std_devs))
       (\<lambda>(g', beliefs, prior_states, prior_means, prior_std_devs).
     and_then (stack0 (drop 1 beliefs)) (\<lambda>out_beliefs.
     and_then (stack0 (drop 1 prior_states)) (\<lambda>out_states.
     and_then (stack0 (drop 1 prior_means)) (\<lambda>out_means.
     and_then (stack0 (drop 1 prior_std_devs)) (\<lambda>out_std_devs.
     Inr ([out_beliefs, out_states, out_means, out_std_devs], g'))))))))))"

section \<open>The gradient scopes\<close>

text \<open>
  A parameter is an object with a mutable \<^verbatim>\<open>requires_grad\<close> flag: parameters are
  addresses and the store maps each to its flag. A module is the list of parameters that
  \<^verbatim>\<open>module.parameters()\<close> enumerates, in order; the same parameter may belong to several
  modules. The supplied \<open>modules\<close> are a list (an iterable that can be walked again), and the
  enumeration of a module stays the same while the scope is open.
\<close>

type_synonym param = nat
type_synonym module = "param list"
type_synonym store = "param \<Rightarrow> bool"

definition get_parameters :: "module list \<Rightarrow> param list" where
  "get_parameters modules = fold (\<lambda>module model_parameters. model_parameters @ module) modules []"

record scope =
  modules :: "module list"
  param_states :: "bool list"

text \<open>\<^verbatim>\<open>__init__\<close> of both classes.\<close>

definition scope_init :: "module list \<Rightarrow> store \<Rightarrow> scope" where
  "scope_init ms s = \<lparr>modules = ms, param_states = map s (get_parameters ms)\<rparr>"

text \<open>\<^verbatim>\<open>__enter__\<close>: \<open>ActivateParameters\<close> sets every flag, \<open>FreezeParameters\<close> clears it.\<close>

definition ActivateParameters_enter :: "scope \<Rightarrow> store \<Rightarrow> store" where
  "ActivateParameters_enter self s =
     fold (\<lambda>param s. s(param := True)) (get_parameters (modules self)) s"

definition FreezeParameters_enter :: "scope \<Rightarrow> store \<Rightarrow> store" where
  "FreezeParameters_enter self s =
     fold (\<lambda>param s. s(param := False)) (get_parameters (modules self)) s"

text \<open>\<^verbatim>\<open>__exit__\<close>, the same in both classes: the loop over
  \<^verbatim>\<open>enumerate(get_parameters(self.modules))\<close>. It returns the exception it raised, if any,
  and the store it leaves.\<close>

fun restore_flags :: "(nat \<times> param) list \<Rightarrow> bool list \<Rightarrow> store \<Rightarrow> error option \<times> store" where
  "restore_flags [] states s = (None, s)"
| "restore_flags ((i, param) # rest) states s =
     (if i < length states then restore_flags rest states (s(param := states ! i))
      else (Some IndexError, s))"

definition scope_exit :: "scope \<Rightarrow> store \<Rightarrow> error option \<times> store" where
  "scope_exit self s =
     restore_flags (enumerate 0 (get_parameters (modules self))) (param_states self) s"

text \<open>
  The \<^verbatim>\<open>with\<close> statement around a body. The body is any computation on the store that
  either completes (\<open>None\<close>) or raises (\<open>Some e\<close>); \<^verbatim>\<open>__exit__\<close> runs in both cases and
  returns \<^verbatim>\<open>None\<close>, so an exception of the body is raised again after it. The result is the
  exception that leaves the statement, if any, and the final store.
\<close>

definition with_scope ::
  "(scope \<Rightarrow> store \<Rightarrow> store) \<Rightarrow> module list \<Rightarrow> (store \<Rightarrow> error option \<times> store) \<Rightarrow> store
     \<Rightarrow> error option \<times> store" where
  "with_scope enter ms body s =
     (let self = scope_init ms s;
          s1 = enter self s;
          (raised, s2) = body s1;
          (raised_in_exit, s3) = scope_exit self s2
      in (case raised_in_exit of Some e \<Rightarrow> Some e | None \<Rightarrow> raised, s3))"

definition with_ActivateParameters ::
  "module list \<Rightarrow> (store \<Rightarrow> error option \<times> store) \<Rightarrow> store \<Rightarrow> error option \<times> store" where
  "with_ActivateParameters = with_scope ActivateParameters_enter"

definition with_FreezeParameters ::
  "module list \<Rightarrow> (store \<Rightarrow> error option \<times> store) \<Rightarrow> store \<Rightarrow> error option \<times> store" where
  "with_FreezeParameters = with_scope FreezeParameters_enter"

section \<open>The rollout as the specification words it\<close>

text \<open>
  The state of the rollout at one time step: the generator, the belief, the sampled state,
  the mean and the standard deviation.
\<close>

type_synonym step_state = "generator \<times> tensor \<times> tensor \<times> tensor \<times> tensor"

definition gen_of :: "step_state \<Rightarrow> generator" where
  "gen_of x = fst x"

definition belief_of :: "step_state \<Rightarrow> tensor" where
  "belief_of x = fst (snd x)"

definition state_of :: "step_state \<Rightarrow> tensor" where
  "state_of x = fst (snd (snd x))"

definition mean_of :: "step_state \<Rightarrow> tensor" where
  "mean_of x = fst (snd (snd (snd x)))"

definition std_of :: "step_state \<Rightarrow> tensor" where
  "std_of x = snd (snd (snd (snd x)))"

text \<open>One time step of the algorithm of the specification: select the action on the
  detached belief and state, step the belief, compute the prior, floor the standard
  deviation, draw the state.\<close>

definition spec_step :: "policy \<Rightarrow> transition_model \<Rightarrow> step_state \<Rightarrow> error + step_state" where
  "spec_step pol tm x =
     (let action = get_action pol (detach (belief_of x)) (detach (state_of x)) in
      and_then (cat_dim1 (state_of x) action) (\<lambda>state_action.
      let new_belief = rnn tm (act_fn tm (fc_embed_state_action tm state_action)) (belief_of x) in
      and_then (chunk2_dim1 (fc_state_prior tm (act_fn tm (fc_embed_belief_prior tm new_belief))))
        (\<lambda>(mean, raw_std).
      let std = add_scalar (softplus_tensor raw_std) (min_std_dev tm) in
      case randn_like (gen_of x) mean of (noise, g') \<Rightarrow>
      and_then (binop (*) std noise) (\<lambda>scaled.
      and_then (binop (+) mean scaled) (\<lambda>state.
      Inr (g', new_belief, state, mean, std))))))"

text \<open>Time step \<open>t\<close> of the rollout from the initial belief \<open>B0\<close> and state \<open>S0\<close>; step 0
  is the input, with no mean and no standard deviation.\<close>

fun spec_rollout ::
  "policy \<Rightarrow> transition_model \<Rightarrow> generator \<Rightarrow> tensor \<Rightarrow> tensor \<Rightarrow> nat \<Rightarrow> error + step_state" where
  "spec_rollout pol tm g B0 S0 0 = Inr (g, B0, S0, empty0, empty0)"
| "spec_rollout pol tm g B0 S0 (Suc t) =
     and_then (spec_rollout pol tm g B0 S0 t) (spec_step pol tm)"

text \<open>What \<^verbatim>\<open>torch.stack\<close> returns for a list it accepts: entry \<open>k\<close> of the list is slice
  \<open>k\<close> of the result.\<close>

definition stacked :: "tensor list \<Rightarrow> tensor" where
  "stacked xs = Tensor (length xs # shape (hd xs)) (concat (map data xs))"

text \<open>
  The shapes the collaborators must respect for a rollout with beliefs of shape
  \<open>belief_shape\<close> and states of shape \<open>state_shape\<close>: the action can be concatenated to the
  state along dimension 1, the recurrent cell keeps the shape of the belief, and the prior
  layer returns twice the state's size in dimension 1 (mean and raw standard deviation).
\<close>

definition shapes_fit :: "policy \<Rightarrow> transition_model \<Rightarrow> nat list \<Rightarrow> nat list \<Rightarrow> bool" where
  "shapes_fit pol tm belief_shape state_shape =
     (2 \<le> length state_shape \<and>
      (\<forall>b s. shape b = belief_shape \<and> shape s = state_shape \<longrightarrow>
         length (shape (get_action pol b s)) = length state_shape \<and>
         hd (shape (get_action pol b s)) = hd state_shape \<and>
         drop 2 (shape (get_action pol b s)) = drop 2 state_shape) \<and>
      (\<forall>h b. shape b = belief_shape \<longrightarrow> shape (rnn tm h b) = belief_shape) \<and>
      (\<forall>b. shape b = belief_shape \<longrightarrow>
         shape (fc_state_prior tm (act_fn tm (fc_embed_belief_prior tm b)))
           = hd state_shape # (2 * (state_shape ! 1)) # drop 2 state_shape))"

text \<open>A buffer of length \<open>L\<close> after time step \<open>m\<close>: the entries up to \<open>m\<close> are filled,
  the others are still the placeholder.\<close>

definition filled :: "nat \<Rightarrow> (nat \<Rightarrow> tensor) \<Rightarrow> nat \<Rightarrow> tensor list" where
  "filled L f m = map (\<lambda>i. if i \<le> m then f i else empty0) [0..<L]"


text \<open>Deterministic stand-ins for the collaborators, to run the rollout on concrete
  inputs: the policy repeats the state, the recurrent cell keeps the belief, and the prior
  layer returns mean 1 and raw standard deviation 0 for a batch of one.\<close>

definition stub_policy :: policy where
  "stub_policy = \<lparr>get_action = \<lambda>b s. s\<rparr>"

definition stub_transition_model :: transition_model where
  "stub_transition_model =
     \<lparr>act_fn = \<lambda>x. x, fc_embed_state_action = \<lambda>x. x, rnn = \<lambda>h b. b,
      fc_embed_belief_prior = \<lambda>x. x, fc_state_prior = \<lambda>h. Tensor [1, 2] [1, 0],
      min_std_dev = 1 / 10\<rparr>"

section \<open>Properties of the \<open>\<lambda>\<close>-return estimator\<close>

lemma lambda_loop_spec:
  assumes inp: "inputs = map (spec_target R V b \<gamma> l) [0..<length R]"
      and dt: "discount_tensor = map (\<lambda>r. \<gamma>) R"
  shows "m \<le> length R \<Longrightarrow>
     lambda_loop inputs discount_tensor l (rev [0..<m]) (spec_last R V b \<gamma> l (length R - m)) outs
       = Inr (outs @ map (\<lambda>j. spec_last R V b \<gamma> l (Suc j)) [length R - m..<length R])"
proof (induction m arbitrary: outs)
  case 0
  then show ?case by simp
next
  case (Suc m)
  have k: "length R - 1 - (length R - Suc m) = m" using Suc.prems by simp
  have s: "Suc (length R - Suc m) = length R - m" using Suc.prems by simp
  have step: "inputs ! m + discount_tensor ! m * l * spec_last R V b \<gamma> l (length R - Suc m)
      = spec_last R V b \<gamma> l (length R - m)"
    using Suc.prems by (simp add: inp dt k s [symmetric] del: upt_Suc)
  have u: "[length R - Suc m..<length R] = (length R - Suc m) # [length R - m..<length R]"
    using Suc.prems by (simp add: upt_conv_Cons s)
  have m: "m \<le> length R" using Suc.prems by simp
  have r: "rev [0..<Suc m] = m # rev [0..<m]" by simp
  have lt: "m < length inputs \<and> m < length discount_tensor"
    using Suc.prems by (simp add: inp dt)
  have "lambda_loop inputs discount_tensor l (rev [0..<Suc m])
          (spec_last R V b \<gamma> l (length R - Suc m)) outs
      = lambda_loop inputs discount_tensor l (rev [0..<m])
          (spec_last R V b \<gamma> l (length R - m)) (outs @ [spec_last R V b \<gamma> l (length R - m)])"
    unfolding r using lt by (simp add: Let_def step del: spec_last.simps upt_Suc)
  also have "\<dots> = Inr ((outs @ [spec_last R V b \<gamma> l (length R - m)]) @
          map (\<lambda>j. spec_last R V b \<gamma> l (Suc j)) [length R - m..<length R])"
    by (rule Suc.IH [OF m])
  also have "\<dots> = Inr (outs @ map (\<lambda>j. spec_last R V b \<gamma> l (Suc j))
          [length R - Suc m..<length R])"
    unfolding u by (simp add: s del: spec_last.simps)
  finally show ?case .
qed

lemma rev_spec_last:
  "rev (map (\<lambda>j. spec_last R V b \<gamma> l (Suc j)) [0..<length R]) = map (spec_G R V b \<gamma> l) [0..<length R]"
  by (rule nth_equalityI) (auto simp: rev_nth spec_G_def Suc_diff_Suc simp del: spec_last.simps)

lemma next_values_nth:
  assumes "length V = N" "i < N"
  shows "(drop 1 V @ [b]) ! i = spec_next_values V b N i"
  using assms by (auto simp: spec_next_values_def nth_append)

lemma lambda_return_spec:
  assumes N: "1 \<le> length R" and V: "length V = length R"
  shows "lambda_return R V b \<gamma> l = Inr (map (spec_G R V b \<gamma> l) [0..<length R])"
proof -
  let ?N = "length R"
  let ?dt = "map (\<lambda>one. \<gamma> * one) (map (\<lambda>r. 1) R)"
  let ?nv = "drop 1 V @ [b]"
  have dt: "?dt = map (\<lambda>r. \<gamma>) R" by simp
  have lnv: "length ?nv = ?N" using N V by simp
  have b1: "broadcast1 (*) ?dt ?nv = Inr (map2 (*) ?dt ?nv)"
    using lnv by (simp add: broadcast1_def)
  let ?sc = "map (\<lambda>x. x * (1 - l)) (map2 (*) ?dt ?nv)"
  have lsc: "length ?sc = ?N" using lnv by simp
  have b2: "broadcast1 (+) R ?sc = Inr (map2 (+) R ?sc)"
    using lsc by (simp add: broadcast1_def)
  have inp: "map2 (+) R ?sc = map (spec_target R V b \<gamma> l) [0..<?N]"
  proof (rule nth_equalityI)
    show "length (map2 (+) R ?sc) = length (map (spec_target R V b \<gamma> l) [0..<?N])"
      using lnv by simp
  next
    fix i assume "i < length (map2 (+) R ?sc)"
    then have i: "i < ?N" by simp
    then show "map2 (+) R ?sc ! i = map (spec_target R V b \<gamma> l) [0..<?N] ! i"
      using lnv next_values_nth [OF V i, of b]
      by (simp add: spec_target_def del: drop_Suc_Cons)
  qed
  have len: "length (map2 (+) R ?sc) = ?N" using lnv by simp
  have loop: "lambda_loop (map2 (+) R ?sc) ?dt l (rev [0..<length (map2 (+) R ?sc)]) b []
       = Inr (map (\<lambda>j. spec_last R V b \<gamma> l (Suc j)) [0..<?N])"
    unfolding len using lambda_loop_spec [OF inp dt, of ?N "[]"] by simp
  have ne: "map (spec_G R V b \<gamma> l) [0..<?N] \<noteq> []" using N by auto
  show ?thesis
    unfolding lambda_return_def Let_def b1 sum.case b2 loop rev_spec_last
    using ne by (simp add: stack1_def)
qed


lemma spec_last_monte_carlo:
  "k \<le> length R \<Longrightarrow>
   spec_last R V b \<gamma> 1 k
     = (\<Sum>j = length R - k..<length R. \<gamma> ^ (j - (length R - k)) * R ! j) + \<gamma> ^ k * b"
proof (induction k)
  case 0
  then show ?case by simp
next
  case (Suc k)
  let ?N = "length R"
  have k: "k \<le> ?N" and lt: "?N - Suc k < ?N" and s: "Suc (?N - Suc k) = ?N - k"
    using Suc.prems by simp_all
  have shift: "(\<Sum>j = ?N - k..<?N. \<gamma> ^ (j - (?N - Suc k)) * R ! j)
      = \<gamma> * (\<Sum>j = ?N - k..<?N. \<gamma> ^ (j - (?N - k)) * R ! j)"
    unfolding sum_distrib_left
  proof (rule sum.cong)
    fix j assume "j \<in> {?N - k..<?N}"
    then have "j - (?N - Suc k) = Suc (j - (?N - k))" using Suc.prems by auto
    then show "\<gamma> ^ (j - (?N - Suc k)) * R ! j = \<gamma> * (\<gamma> ^ (j - (?N - k)) * R ! j)"
      by simp
  qed simp
  have split: "(\<Sum>j = ?N - Suc k..<?N. \<gamma> ^ (j - (?N - Suc k)) * R ! j)
      = R ! (?N - Suc k) + (\<Sum>j = ?N - k..<?N. \<gamma> ^ (j - (?N - Suc k)) * R ! j)"
    using sum.atLeast_Suc_lessThan [OF lt, of "\<lambda>j. \<gamma> ^ (j - (?N - Suc k)) * R ! j"]
    by (simp add: s)
  have "spec_last R V b \<gamma> 1 (Suc k)
      = R ! (?N - Suc k) + \<gamma> * spec_last R V b \<gamma> 1 k"
    by (simp add: spec_target_def)
  also have "\<dots> = R ! (?N - Suc k)
      + \<gamma> * ((\<Sum>j = ?N - k..<?N. \<gamma> ^ (j - (?N - k)) * R ! j) + \<gamma> ^ k * b)"
    by (simp only: Suc.IH [OF k])
  also have "\<dots> = (\<Sum>j = ?N - Suc k..<?N. \<gamma> ^ (j - (?N - Suc k)) * R ! j)
      + \<gamma> ^ Suc k * b"
    unfolding split shift by (simp add: algebra_simps)
  finally show ?case .
qed

lemma spec_G_one_step:
  "i < length R \<Longrightarrow> spec_G R V b \<gamma> 0 i = R ! i + \<gamma> * spec_next_values V b (length R) i"
proof -
  assume i: "i < length R"
  then have "length R - i = Suc (length R - Suc i)" by simp
  then have "spec_G R V b \<gamma> 0 i = spec_target R V b \<gamma> 0 (length R - 1 - (length R - Suc i))"
    by (simp add: spec_G_def)
  also have "length R - 1 - (length R - Suc i) = i" using i by simp
  finally show ?thesis by (simp add: spec_target_def)
qed

text \<open>
  C1. For a reward sequence \<open>R\<close> of length \<open>N \<ge> 1\<close>, values \<open>V\<close> of the same length, a
  bootstrap value \<open>b\<close>, a discount \<open>\<gamma>\<close> and a blending factor \<open>l\<close>, \<open>lambda_return\<close>
  returns, in forward time order, the sequence \<open>G\<close> of the recurrence:
  \<open>next_values[i] = V[i+1]\<close> for \<open>i < N-1\<close> and \<open>next_values[N-1] = b\<close>;
  \<open>target[i] = R[i] + \<gamma> * next_values[i] * (1 - l)\<close>; \<open>last = b\<close>, then for \<open>i\<close> from
  \<open>N-1\<close> down to \<open>0\<close>, \<open>last = target[i] + \<gamma> * l * last\<close> and \<open>G[i] = last\<close>.
\<close>

theorem lambda_return_recurrence:
  assumes "1 \<le> length R" and "length V = length R"
  shows "lambda_return R V b \<gamma> l = Inr (map (spec_G R V b \<gamma> l) [0..<length R])"
  using assms by (rule lambda_return_spec)

theorem lambda_return_recurrence_witness:
  "1 \<le> length [1, 1, 1 :: real] \<and> length [2, 2, 2 :: real] = length [1, 1, 1 :: real] \<and>
   lambda_return [1, 1, 1] [2, 2, 2] 3 (9 / 10) (1 / 2) = Inr [3.50425, 3.565, 3.7]"
  using lambda_return_recurrence [of "[1, 1, 1]" "[2, 2, 2]" 3 "9 / 10" "1 / 2"]
  by (simp add: spec_G_def spec_target_def spec_next_values_def upt_rec numeral_2_eq_2 numeral_3_eq_3)

text \<open>
  C5. With \<open>l = 1\<close>, for \<open>R\<close> of length \<open>N \<ge> 1\<close> and aligned \<open>V\<close>, \<open>lambda_return\<close> returns
  \<open>G\<close> of length \<open>N\<close> with \<open>G[i] = (\<Sum>j = i..N-1. \<gamma>^(j-i) * R[j]) + \<gamma>^(N-i) * b\<close> for every
  \<open>i < N\<close>: the discounted Monte Carlo return.
\<close>

theorem lambda_return_monte_carlo:
  assumes "1 \<le> length R" and "length V = length R"
  shows "\<exists>G. lambda_return R V b \<gamma> 1 = Inr G \<and> length G = length R \<and>
           (\<forall>i<length R. G ! i
              = (\<Sum>j = i..<length R. \<gamma> ^ (j - i) * R ! j) + \<gamma> ^ (length R - i) * b)"
proof -
  have "\<forall>i<length R. map (spec_G R V b \<gamma> 1) [0..<length R] ! i
      = (\<Sum>j = i..<length R. \<gamma> ^ (j - i) * R ! j) + \<gamma> ^ (length R - i) * b"
    using spec_last_monte_carlo [of _ R V b \<gamma>] by (simp add: spec_G_def)
  then show ?thesis
    using lambda_return_spec [OF assms, of b \<gamma> 1] by simp
qed

theorem lambda_return_monte_carlo_witness:
  "1 \<le> length [1, 1, 1 :: real] \<and> length [2, 2, 2 :: real] = length [1, 1, 1 :: real] \<and>
   (\<exists>G. lambda_return [1, 1, 1] [2, 2, 2] 3 (1 / 2) 1 = Inr G \<and> length G = 3 \<and>
        G ! 0 = 17 / 8 \<and> G ! 2 = 5 / 2)"
proof -
  have h1: "1 \<le> length [1, 1, 1 :: real]" by simp
  have h2: "length [2, 2, 2 :: real] = length [1, 1, 1 :: real]" by simp
  let ?R = "[1, 1, 1 :: real]"
  from lambda_return_monte_carlo [OF h1 h2, of 3 "1 / 2"]
  obtain G where G: "lambda_return ?R [2, 2, 2] 3 (1 / 2) 1 = Inr G" "length G = length ?R"
    and nth: "\<forall>i<length ?R. G ! i
       = (\<Sum>j = i..<length ?R. (1 / 2) ^ (j - i) * ?R ! j) + (1 / 2) ^ (length ?R - i) * 3"
    by blast
  have "G ! 0 = 17 / 8"
    using nth [rule_format, of 0] by (simp add: power2_eq_square power3_eq_cube)
  moreover have "G ! 2 = 5 / 2"
    using nth [rule_format, of 2] by simp
  ultimately show ?thesis using G by simp
qed

text \<open>
  C6. With \<open>l = 0\<close>, for \<open>R\<close> of length \<open>N \<ge> 1\<close> and aligned \<open>V\<close>, \<open>lambda_return\<close> returns
  \<open>G\<close> of length \<open>N\<close> with \<open>G[i] = R[i] + \<gamma> * next_values[i]\<close> for every \<open>i < N\<close>, where
  \<open>next_values[i] = V[i+1]\<close> for \<open>i < N-1\<close> and \<open>next_values[N-1] = b\<close>: the one-step
  bootstrapped return.
\<close>

theorem lambda_return_one_step:
  assumes "1 \<le> length R" and "length V = length R"
  shows "\<exists>G. lambda_return R V b \<gamma> 0 = Inr G \<and> length G = length R \<and>
           (\<forall>i<length R. G ! i = R ! i + \<gamma> * (if i < length R - 1 then V ! (i + 1) else b))"
  using lambda_return_spec [OF assms, of b \<gamma> 0] spec_G_one_step [of _ R V b \<gamma>]
  by (simp add: spec_next_values_def)

theorem lambda_return_one_step_witness:
  "1 \<le> length [1, 1, 1 :: real] \<and> length [2, 4, 6 :: real] = length [1, 1, 1 :: real] \<and>
   (\<exists>G. lambda_return [1, 1, 1] [2, 4, 6] 3 (1 / 2) 0 = Inr G \<and> length G = 3 \<and>
        G ! 0 = 3 \<and> G ! 1 = 4 \<and> G ! 2 = 5 / 2)"
proof -
  have h1: "1 \<le> length [1, 1, 1 :: real]" by simp
  have h2: "length [2, 4, 6 :: real] = length [1, 1, 1 :: real]" by simp
  let ?R = "[1, 1, 1 :: real]"
  from lambda_return_one_step [OF h1 h2, of 3 "1 / 2"]
  obtain G where G: "lambda_return ?R [2, 4, 6] 3 (1 / 2) 0 = Inr G" "length G = length ?R"
    and nth: "\<forall>i<length ?R. G ! i = ?R ! i
       + 1 / 2 * (if i < length ?R - 1 then [2, 4, 6 :: real] ! (i + 1) else 3)"
    by blast
  have "G ! 0 = 3" using nth [rule_format, of 0] by simp
  moreover have "G ! 1 = 4" using nth [rule_format, of 1] by simp
  moreover have "G ! 2 = 5 / 2" using nth [rule_format, of 2] by simp
  ultimately show ?thesis using G by simp
qed

text \<open>
  C10. Called with an empty reward sequence, \<open>lambda_return\<close> raises instead of returning
  an empty sequence, whatever the values are: when the two broadcasts succeed the loop
  visits no index, leaves \<open>outputs\<close> empty, and the final stacking of the empty list fails.
  So a result of the length of the reward sequence is only returned for \<open>N \<ge> 1\<close>.
\<close>

theorem lambda_return_empty_raises:
  "lambda_return [] V b \<gamma> l = Inl RuntimeError \<and>
   lambda_loop [] [] l (rev [0..<length ([] :: real list)]) b [] = Inr [] \<and>
   stack1 (rev []) = Inl RuntimeError"
  by (simp add: lambda_return_def broadcast1_def stack1_def)

section \<open>Properties of the imagination rollout\<close>

subsection \<open>Auxiliary facts about the tensor operations and the loop\<close>

text \<open>Sequencing, broadcasting of equal shapes, concatenation and chunking on fitting
  shapes.\<close>

lemma and_then_Inr [simp]: "and_then (Inr x) f = f x"
  by (simp add: and_then_def)

lemma and_then_Inl [simp]: "and_then (Inl e) f = Inl e"
  by (simp add: and_then_def)

lemma broadcast_dims_same: "broadcast_dims s s = Some s"
  by (induction s) simp_all

lemma binop_same_shape:
  "shape x = shape y \<Longrightarrow> \<exists>z. binop f x y = Inr z \<and> shape z = shape y"
  by (simp add: binop_def pad_shape_def broadcast_dims_same Let_def)

lemma shape_decompose: "2 \<le> length s \<Longrightarrow> s = hd s # s ! 1 # drop 2 s"
  by (cases s; cases "tl s") auto

lemma cat_dim1_fits:
  assumes "2 \<le> length (shape x)" "length (shape y) = length (shape x)"
    "hd (shape y) = hd (shape x)" "drop 2 (shape y) = drop 2 (shape x)"
  shows "\<exists>z. cat_dim1 x y = Inr z"
  using assms by (auto simp: cat_dim1_def)

lemma chunk2_dim1_even:
  assumes "shape x = n # (2 * c) # rest"
  shows "\<exists>a b. chunk2_dim1 x = Inr (a, b) \<and> shape a = n # c # rest \<and> shape b = n # c # rest"
  using assms by (auto simp: chunk2_dim1_def Let_def)

text \<open>With collaborators that respect the shapes, every time step of the rollout of the
  specification returns, and keeps the shapes.\<close>

lemma spec_step_fits:
  assumes fit: "shapes_fit pol tm bsh ssh"
      and b: "shape (belief_of x) = bsh" and s: "shape (state_of x) = ssh"
  shows "\<exists>y. spec_step pol tm x = Inr y \<and> shape (belief_of y) = bsh \<and> shape (state_of y) = ssh
           \<and> shape (mean_of y) = ssh \<and> shape (std_of y) = ssh"
proof -
  let ?a = "get_action pol (detach (belief_of x)) (detach (state_of x))"
  have r2: "2 \<le> length ssh" using fit by (simp add: shapes_fit_def)
  have a: "length (shape ?a) = length ssh" "hd (shape ?a) = hd ssh" "drop 2 (shape ?a) = drop 2 ssh"
    using fit b s by (simp_all add: shapes_fit_def detach_def)
  obtain sa where sa: "cat_dim1 (state_of x) ?a = Inr sa"
    using cat_dim1_fits [of "state_of x" ?a] r2 a s by auto
  let ?nb = "rnn tm (act_fn tm (fc_embed_state_action tm sa)) (belief_of x)"
  have nb: "shape ?nb = bsh" using fit b by (simp add: shapes_fit_def)
  let ?p = "fc_state_prior tm (act_fn tm (fc_embed_belief_prior tm ?nb))"
  have p: "shape ?p = hd ssh # (2 * (ssh ! 1)) # drop 2 ssh"
    using fit nb by (simp add: shapes_fit_def)
  have ssh: "hd ssh # ssh ! 1 # drop 2 ssh = ssh" using shape_decompose [OF r2] by simp
  obtain mean raw where ch: "chunk2_dim1 ?p = Inr (mean, raw)"
    and mean: "shape mean = ssh" and raw: "shape raw = ssh"
    using chunk2_dim1_even [OF p] ssh by auto
  let ?std = "add_scalar (softplus_tensor raw) (min_std_dev tm)"
  have std: "shape ?std = ssh" using raw by (simp add: add_scalar_def softplus_tensor_def)
  obtain noise g' where rn: "randn_like (gen_of x) mean = (noise, g')" by (cases "randn_like (gen_of x) mean")
  then have noise: "shape noise = ssh" using mean by (auto simp: randn_like_def Let_def)
  obtain scaled where sc: "binop (*) ?std noise = Inr scaled" "shape scaled = ssh"
    using binop_same_shape [of ?std noise "(*)"] std noise by auto
  obtain st where st: "binop (+) mean scaled = Inr st" "shape st = ssh"
    using binop_same_shape [of mean scaled "(+)"] mean sc by auto
  have "spec_step pol tm x = Inr (g', ?nb, st, mean, ?std)"
    by (simp add: spec_step_def Let_def sa ch rn sc st)
  then show ?thesis
    using nb st mean std by (simp add: belief_of_def state_of_def mean_of_def std_of_def)
qed

lemma spec_rollout_fits:
  assumes fit: "shapes_fit pol tm (shape B0) (shape S0)"
  shows "\<exists>y. spec_rollout pol tm g B0 S0 t = Inr y \<and> shape (belief_of y) = shape B0
           \<and> shape (state_of y) = shape S0
           \<and> (0 < t \<longrightarrow> shape (mean_of y) = shape S0 \<and> shape (std_of y) = shape S0)"
proof (induction t)
  case 0
  then show ?case by (simp add: belief_of_def state_of_def)
next
  case (Suc t)
  then obtain x where x: "spec_rollout pol tm g B0 S0 t = Inr x"
    "shape (belief_of x) = shape B0" "shape (state_of x) = shape S0" by auto
  from spec_step_fits [OF fit x(2) x(3)] show ?case by (simp add: x(1))
qed

text \<open>One round of the loop of the code is one time step of the specification, written
  into the buffers at index \<open>t + 1\<close>.\<close>

lemma imagine_step_refines:
  assumes "t + 1 < length beliefs" "length prior_states = length beliefs"
    "length prior_means = length beliefs" "length prior_std_devs = length beliefs"
  shows "imagine_step pol tm t (g, beliefs, prior_states, prior_means, prior_std_devs)
      = and_then (spec_step pol tm (g, beliefs ! t, prior_states ! t, prior_means ! t, prior_std_devs ! t))
          (\<lambda>y. Inr (gen_of y, beliefs[t + 1 := belief_of y], prior_states[t + 1 := state_of y],
                  prior_means[t + 1 := mean_of y], prior_std_devs[t + 1 := std_of y]))"
  using assms
  by (simp add: imagine_step_def spec_step_def list_get_def list_set_def Let_def
      gen_of_def belief_of_def state_of_def mean_of_def std_of_def and_then_def
      split: sum.splits prod.splits)


lemma length_filled [simp]: "length (filled L f m) = L"
  by (simp add: filled_def)

lemma nth_filled: "i < L \<Longrightarrow> filled L f m ! i = (if i \<le> m then f i else empty0)"
  by (simp add: filled_def)

lemma filled_update: "Suc m < L \<Longrightarrow> (filled L f m)[Suc m := f (Suc m)] = filled L f (Suc m)"
  by (rule nth_equalityI) (auto simp: nth_filled nth_list_update)

lemma filled_init: "0 < L \<Longrightarrow> (replicate L empty0)[0 := f 0] = filled L f 0"
  by (rule nth_equalityI) (auto simp: nth_filled nth_list_update)

lemma filled_placeholder: "f 0 = empty0 \<Longrightarrow> replicate L empty0 = filled L f 0"
  by (rule nth_equalityI) (auto simp: nth_filled)

lemma drop_filled: "drop 1 (filled L f (L - 1)) = map (\<lambda>k. f (Suc k)) [0..<L - 1]"
  by (rule nth_equalityI) (auto simp: nth_filled)

lemma imagine_loop_append:
  "imagine_loop pol tm (ts @ [t]) st
     = and_then (imagine_loop pol tm ts st) (imagine_step pol tm t)"
proof (induction ts arbitrary: st)
  case Nil
  show ?case by (cases "imagine_step pol tm t st") simp_all
next
  case (Cons u us)
  show ?case by (cases "imagine_step pol tm u st") (simp_all add: Cons.IH)
qed

lemma step_state_eq: "(gen_of x, belief_of x, state_of x, mean_of x, std_of x) = x"
  by (simp add: gen_of_def belief_of_def state_of_def mean_of_def std_of_def)

lemma imagine_loop_filled:
  assumes r: "\<forall>t. spec_rollout pol tm g B0 S0 t = Inr (r t)"
  shows "m < L \<Longrightarrow>
     imagine_loop pol tm [0..<m]
        (g, filled L (\<lambda>t. belief_of (r t)) 0, filled L (\<lambda>t. state_of (r t)) 0,
            filled L (\<lambda>t. mean_of (r t)) 0, filled L (\<lambda>t. std_of (r t)) 0)
      = Inr (gen_of (r m), filled L (\<lambda>t. belief_of (r t)) m, filled L (\<lambda>t. state_of (r t)) m,
            filled L (\<lambda>t. mean_of (r t)) m, filled L (\<lambda>t. std_of (r t)) m)"
proof (induction m)
  case 0
  have "r 0 = (g, B0, S0, empty0, empty0)" using r [rule_format, of 0] by simp
  then show ?case by (simp add: gen_of_def)
next
  case (Suc m)
  let ?st = "(gen_of (r m), filled L (\<lambda>t. belief_of (r t)) m, filled L (\<lambda>t. state_of (r t)) m,
            filled L (\<lambda>t. mean_of (r t)) m, filled L (\<lambda>t. std_of (r t)) m)"
  have m: "m < L" using Suc.prems by simp
  have step: "spec_step pol tm (r m) = Inr (r (Suc m))"
    using r [rule_format, of "Suc m"] r [rule_format, of m] by simp
  have "imagine_loop pol tm [0..<Suc m]
        (g, filled L (\<lambda>t. belief_of (r t)) 0, filled L (\<lambda>t. state_of (r t)) 0,
            filled L (\<lambda>t. mean_of (r t)) 0, filled L (\<lambda>t. std_of (r t)) 0)
      = imagine_step pol tm m ?st"
    using Suc.IH [OF m] by (simp add: imagine_loop_append)
  also have "\<dots> = and_then (spec_step pol tm (r m))
          (\<lambda>y. Inr (gen_of y, (filled L (\<lambda>t. belief_of (r t)) m)[m + 1 := belief_of y],
                  (filled L (\<lambda>t. state_of (r t)) m)[m + 1 := state_of y],
                  (filled L (\<lambda>t. mean_of (r t)) m)[m + 1 := mean_of y],
                  (filled L (\<lambda>t. std_of (r t)) m)[m + 1 := std_of y]))"
    using Suc.prems m
    by (subst imagine_step_refines) (simp_all add: nth_filled step_state_eq)
  also have "\<dots> = Inr (gen_of (r (Suc m)), filled L (\<lambda>t. belief_of (r t)) (Suc m),
            filled L (\<lambda>t. state_of (r t)) (Suc m),
            filled L (\<lambda>t. mean_of (r t)) (Suc m), filled L (\<lambda>t. std_of (r t)) (Suc m))"
    using filled_update [OF Suc.prems, of "\<lambda>t. belief_of (r t)"]
      filled_update [OF Suc.prems, of "\<lambda>t. state_of (r t)"]
      filled_update [OF Suc.prems, of "\<lambda>t. mean_of (r t)"]
      filled_update [OF Suc.prems, of "\<lambda>t. std_of (r t)"]
    by (simp add: step)
  finally show ?case .
qed

lemma stack0_same_shape:
  assumes "xs \<noteq> []" "\<forall>x\<in>set xs. shape x = sh"
  shows "stack0 xs = Inr (stacked xs)"
  using assms by (cases xs) (auto simp: stack0_def stacked_def list_all_iff)

lemma flatten_two_dim: "shape x = [n, c] \<Longrightarrow> flatten x = Inr (Tensor [n * c] (data x))"
  by (simp add: flatten_def view_infer_def)

lemma flatten_shape_data:
  "flatten x = Inr y \<Longrightarrow> data y = data x \<and> prod_list (shape y) = prod_list (shape x)"
  by (auto simp: flatten_def view_infer_def split: if_splits)

lemma imagine_ahead_rollout:
  assumes T: "2 \<le> T"
      and fb: "flatten prev_belief = Inr B0" and fs: "flatten prev_state = Inr S0"
      and fit: "shapes_fit pol tm (shape B0) (shape S0)"
  shows "\<exists>r. (\<forall>t. spec_rollout pol tm g B0 S0 t = Inr (r t)) \<and>
          imagine_ahead g prev_state prev_belief pol tm T
            = Inr ([stacked (map (\<lambda>k. belief_of (r (Suc k))) [0..<nat (T - 1)]),
                    stacked (map (\<lambda>k. state_of (r (Suc k))) [0..<nat (T - 1)]),
                    stacked (map (\<lambda>k. mean_of (r (Suc k))) [0..<nat (T - 1)]),
                    stacked (map (\<lambda>k. std_of (r (Suc k))) [0..<nat (T - 1)])],
                   gen_of (r (nat (T - 1))))"
proof -
  have "\<forall>t. \<exists>y. spec_rollout pol tm g B0 S0 t = Inr y \<and> shape (belief_of y) = shape B0
           \<and> shape (state_of y) = shape S0
           \<and> (0 < t \<longrightarrow> shape (mean_of y) = shape S0 \<and> shape (std_of y) = shape S0)"
    using spec_rollout_fits [OF fit] by blast
  then obtain r where r: "\<forall>t. spec_rollout pol tm g B0 S0 t = Inr (r t)"
    and shb: "\<forall>t. shape (belief_of (r t)) = shape B0"
    and shs: "\<forall>t. shape (state_of (r t)) = shape S0"
    and shm: "\<forall>t. 0 < t \<longrightarrow> shape (mean_of (r t)) = shape S0"
    and shd: "\<forall>t. 0 < t \<longrightarrow> shape (std_of (r t)) = shape S0"
    by metis
  let ?L = "nat T"
  have L: "0 < ?L" "nat (T - 1) < ?L" "nat (T - 1) = ?L - 1" "0 < ?L - 1" using T by auto
  have r0: "r 0 = (g, B0, S0, empty0, empty0)" using r [rule_format, of 0] by simp
  have b0: "(replicate ?L empty0)[0 := B0] = filled ?L (\<lambda>t. belief_of (r t)) 0"
    using filled_init [OF L(1), of "\<lambda>t. belief_of (r t)"] by (simp add: r0 belief_of_def)
  have s0: "(replicate ?L empty0)[0 := S0] = filled ?L (\<lambda>t. state_of (r t)) 0"
    using filled_init [OF L(1), of "\<lambda>t. state_of (r t)"] by (simp add: r0 state_of_def)
  have m0: "replicate ?L empty0 = filled ?L (\<lambda>t. mean_of (r t)) 0"
    by (rule filled_placeholder) (simp add: r0 mean_of_def)
  have d0: "replicate ?L empty0 = filled ?L (\<lambda>t. std_of (r t)) 0"
    by (rule filled_placeholder) (simp add: r0 std_of_def)
  have loop: "imagine_loop pol tm [0..<nat (T - 1)]
        (g, (replicate ?L empty0)[0 := B0], (replicate ?L empty0)[0 := S0],
            replicate ?L empty0, replicate ?L empty0)
      = Inr (gen_of (r (nat (T - 1))), filled ?L (\<lambda>t. belief_of (r t)) (?L - 1),
            filled ?L (\<lambda>t. state_of (r t)) (?L - 1),
            filled ?L (\<lambda>t. mean_of (r t)) (?L - 1), filled ?L (\<lambda>t. std_of (r t)) (?L - 1))"
    using imagine_loop_filled [OF r L(2)] b0 s0 m0 [symmetric] d0 [symmetric] L(3) by simp
  have ne: "\<And>f :: nat \<Rightarrow> tensor. map f [0..<?L - 1] \<noteq> []" using L(4) by simp
  have stb: "stack0 (drop 1 (filled ?L (\<lambda>t. belief_of (r t)) (?L - 1)))
      = Inr (stacked (map (\<lambda>k. belief_of (r (Suc k))) [0..<?L - 1]))"
    unfolding drop_filled by (rule stack0_same_shape [OF ne, of _ "shape B0"]) (simp add: shb)
  have sts: "stack0 (drop 1 (filled ?L (\<lambda>t. state_of (r t)) (?L - 1)))
      = Inr (stacked (map (\<lambda>k. state_of (r (Suc k))) [0..<?L - 1]))"
    unfolding drop_filled by (rule stack0_same_shape [OF ne, of _ "shape S0"]) (simp add: shs)
  have stm: "stack0 (drop 1 (filled ?L (\<lambda>t. mean_of (r t)) (?L - 1)))
      = Inr (stacked (map (\<lambda>k. mean_of (r (Suc k))) [0..<?L - 1]))"
    unfolding drop_filled by (rule stack0_same_shape [OF ne, of _ "shape S0"]) (simp add: shm)
  have std: "stack0 (drop 1 (filled ?L (\<lambda>t. std_of (r t)) (?L - 1)))
      = Inr (stacked (map (\<lambda>k. std_of (r (Suc k))) [0..<?L - 1]))"
    unfolding drop_filled by (rule stack0_same_shape [OF ne, of _ "shape S0"]) (simp add: shd)
  have "imagine_ahead g prev_state prev_belief pol tm T
            = Inr ([stacked (map (\<lambda>k. belief_of (r (Suc k))) [0..<nat (T - 1)]),
                    stacked (map (\<lambda>k. state_of (r (Suc k))) [0..<nat (T - 1)]),
                    stacked (map (\<lambda>k. mean_of (r (Suc k))) [0..<nat (T - 1)]),
                    stacked (map (\<lambda>k. std_of (r (Suc k))) [0..<nat (T - 1)])],
                   gen_of (r (nat (T - 1))))"
    unfolding imagine_ahead_def fb fs and_then_Inr Let_def
    using L(1) loop stb sts stm std by (simp add: list_set_def L(3))
  then show ?thesis using r by blast
qed










text \<open>Slice \<open>k\<close> of a stack of well-formed tensors of one shape is entry \<open>k\<close> of the
  list that was stacked.\<close>

lemma concat_nth_block:
  "\<forall>ys\<in>set yss. length ys = n \<Longrightarrow> k < length yss \<Longrightarrow>
   take n (drop (k * n) (concat yss)) = yss ! k"
proof (induction yss arbitrary: k)
  case Nil
  then show ?case by simp
next
  case (Cons ys yss)
  show ?case
  proof (cases k)
    case 0
    then show ?thesis using Cons.prems by simp
  next
    case (Suc j)
    then show ?thesis using Cons.prems Cons.IH [of j] by simp
  qed
qed

lemma select0_stacked:
  assumes "\<forall>x\<in>set xs. shape x = sh \<and> well_formed x" and "k < length xs"
  shows "select0 (stacked xs) k = xs ! k"
proof -
  have hd: "shape (hd xs) = sh" using assms by (cases xs) auto
  have "\<forall>ys\<in>set (map data xs). length ys = prod_list sh"
    using assms(1) by (auto simp: well_formed_def)
  from concat_nth_block [OF this, of k] assms(2)
  have "take (prod_list sh) (drop (k * prod_list sh) (concat (map data xs))) = data (xs ! k)"
    by simp
  moreover have "shape (xs ! k) = sh" using assms by simp
  ultimately show ?thesis
    by (cases "xs ! k") (simp add: select0_def stacked_def hd)
qed

subsection \<open>The claims about the rollout\<close>

text \<open>
  Where the rollout returns. For every horizon \<open>T \<ge> 2\<close>, on inputs that \<open>flatten\<close> accepts
  and turns into a state of at least two dimensions, and with collaborators that respect
  the shapes, \<open>imagine_ahead\<close> returns exactly four stacked sequences: beliefs, sampled states,
  means and standard deviations. Each has \<open>T - 1\<close> entries, and entry \<open>k\<close> is the value of
  time step \<open>k + 1\<close> of the rollout, so entry 0 is time step 1 and the initial belief and
  state are not among the outputs. The generator returned is the one left by time step
  \<open>T - 1\<close>.
\<close>

theorem imagine_ahead_trajectory:
  assumes "2 \<le> T"
      and "flatten prev_belief = Inr B0" and "flatten prev_state = Inr S0"
      and "shapes_fit pol tm (shape B0) (shape S0)"
  shows "\<exists>r outs.
          (\<forall>t. spec_rollout pol tm g B0 S0 t = Inr (r t)) \<and>
          imagine_ahead g prev_state prev_belief pol tm T = Inr (outs, gen_of (r (nat (T - 1)))) \<and>
          outs = [stacked (map (\<lambda>k. belief_of (r (Suc k))) [0..<nat (T - 1)]),
                  stacked (map (\<lambda>k. state_of (r (Suc k))) [0..<nat (T - 1)]),
                  stacked (map (\<lambda>k. mean_of (r (Suc k))) [0..<nat (T - 1)]),
                  stacked (map (\<lambda>k. std_of (r (Suc k))) [0..<nat (T - 1)])] \<and>
          (\<forall>out\<in>set outs. hd (shape out) = nat (T - 1))"
proof -
  from imagine_ahead_rollout [OF assms, of g]
  obtain r where r: "\<forall>t. spec_rollout pol tm g B0 S0 t = Inr (r t)"
    and run: "imagine_ahead g prev_state prev_belief pol tm T
        = Inr ([stacked (map (\<lambda>k. belief_of (r (Suc k))) [0..<nat (T - 1)]),
                stacked (map (\<lambda>k. state_of (r (Suc k))) [0..<nat (T - 1)]),
                stacked (map (\<lambda>k. mean_of (r (Suc k))) [0..<nat (T - 1)]),
                stacked (map (\<lambda>k. std_of (r (Suc k))) [0..<nat (T - 1)])],
               gen_of (r (nat (T - 1))))"
    by blast
  have "\<forall>out\<in>set [stacked (map (\<lambda>k. belief_of (r (Suc k))) [0..<nat (T - 1)]),
                stacked (map (\<lambda>k. state_of (r (Suc k))) [0..<nat (T - 1)]),
                stacked (map (\<lambda>k. mean_of (r (Suc k))) [0..<nat (T - 1)]),
                stacked (map (\<lambda>k. std_of (r (Suc k))) [0..<nat (T - 1)])].
          hd (shape out) = nat (T - 1)"
    by (simp add: stacked_def)
  with r run show ?thesis by blast
qed

theorem imagine_ahead_trajectory_witness:
  "(2 :: int) \<le> 3 \<and>
   flatten (Tensor [1, 1, 1] [0]) = Inr (Tensor [1, 1] [0]) \<and>
   shapes_fit stub_policy stub_transition_model
     (shape (Tensor [1, 1] [0])) (shape (Tensor [1, 1] [0])) \<and>
   (\<exists>r outs.
      (\<forall>t. spec_rollout stub_policy stub_transition_model (Generator (\<lambda>i. 2) 0)
              (Tensor [1, 1] [0]) (Tensor [1, 1] [0]) t = Inr (r t)) \<and>
      imagine_ahead (Generator (\<lambda>i. 2) 0) (Tensor [1, 1, 1] [0]) (Tensor [1, 1, 1] [0])
          stub_policy stub_transition_model 3 = Inr (outs, gen_of (r (nat (3 - 1)))) \<and>
      outs = [stacked (map (\<lambda>k. belief_of (r (Suc k))) [0..<nat (3 - 1)]),
              stacked (map (\<lambda>k. state_of (r (Suc k))) [0..<nat (3 - 1)]),
              stacked (map (\<lambda>k. mean_of (r (Suc k))) [0..<nat (3 - 1)]),
              stacked (map (\<lambda>k. std_of (r (Suc k))) [0..<nat (3 - 1)])] \<and>
      (\<forall>out\<in>set outs. hd (shape out) = nat (3 - 1)))"
proof -
  have h1: "(2 :: int) \<le> 3" by simp
  have h2: "flatten (Tensor [1, 1, 1] [0]) = Inr (Tensor [1, 1] [0])"
    by (simp add: flatten_def view_infer_def)
  have h3: "shapes_fit stub_policy stub_transition_model
     (shape (Tensor [1, 1] [0])) (shape (Tensor [1, 1] [0]))"
    by (simp add: shapes_fit_def stub_policy_def stub_transition_model_def)
  from imagine_ahead_trajectory [OF h1 h2 h2 h3, of "Generator (\<lambda>i. 2) 0"] h1 h2 h3
  show ?thesis by blast
qed

text \<open>
  C2 asks for four sequences of length \<open>T - 1\<close> for every horizon \<open>T \<ge> 2\<close>. The code does
  not return them for a state batch without an extra leading dimension, the shape its own
  docstring gives (\<^verbatim>\<open>torch.Size([50, 30])\<close>): \<open>flatten\<close> merges the batch and the feature
  dimension of a non-empty state of shape \<open>[n, c]\<close> into the one-dimensional \<open>[n * c]\<close>, and
  the first round of the loop raises at \<^verbatim>\<open>torch.cat([_state, actions], dim=1)\<close>, whatever
  the belief, the policy, the transition model and the horizon \<open>T \<ge> 2\<close> are: IndexError,
  unless \<open>flatten\<close> refused the belief before or the action is zero-dimensional.
\<close>

theorem imagine_ahead_two_dim_state_raises:
  assumes "2 \<le> T" and "shape prev_state = [n, c]" and "n * c \<noteq> 0"
  shows "imagine_ahead g prev_state prev_belief pol tm T =
           (case flatten prev_belief of
              Inl e \<Rightarrow> Inl e
            | Inr B0 \<Rightarrow>
                if shape (get_action pol (detach B0) (detach (Tensor [n * c] (data prev_state)))) = []
                then Inl RuntimeError else Inl IndexError)"
proof (cases "flatten prev_belief")
  case (Inl e)
  then show ?thesis by (simp add: imagine_ahead_def)
next
  case (Inr B0)
  let ?S0 = "Tensor [n * c] (data prev_state)"
  let ?L = "nat T"
  have fs: "flatten prev_state = Inr ?S0"
    using assms(2) by (rule flatten_two_dim)
  have L: "0 < ?L" using assms(1) by simp
  have "0 < nat (T - 1)" using assms(1) by simp
  then have ts: "[0..<nat (T - 1)] = 0 # [Suc 0..<nat (T - 1)]"
    by (rule upt_conv_Cons)
  have cat: "cat_dim1 ?S0 (get_action pol (detach B0) (detach ?S0))
      = (if shape (get_action pol (detach B0) (detach ?S0)) = []
         then Inl RuntimeError else Inl IndexError)"
    using assms(3) by (simp add: cat_dim1_def)
  have step: "imagine_step pol tm 0
        (g, (replicate ?L empty0)[0 := B0], (replicate ?L empty0)[0 := ?S0],
         replicate ?L empty0, replicate ?L empty0)
      = (if shape (get_action pol (detach B0) (detach ?S0)) = []
         then Inl RuntimeError else Inl IndexError)"
    using L by (simp add: imagine_step_def list_get_def cat)
  show ?thesis
    unfolding imagine_ahead_def Inr fs and_then_Inr Let_def
    using L by (simp add: list_set_def ts step)
qed

theorem imagine_ahead_two_dim_state_raises_witness:
  "(2 :: int) \<le> 50 \<and> shape (Tensor [50, 30] (replicate 1500 0)) = [50, 30] \<and>
   (50 :: nat) * 30 \<noteq> 0 \<and>
   imagine_ahead (Generator (\<lambda>i. 0) 0) (Tensor [50, 30] (replicate 1500 0))
       (Tensor [50, 200] (replicate 10000 0)) stub_policy stub_transition_model 50
     = Inl IndexError"
proof -
  have h1: "(2 :: int) \<le> 50" by simp
  have h2: "shape (Tensor [50, 30] (replicate 1500 0)) = [50, 30]" by simp
  have h3: "(50 :: nat) * 30 \<noteq> 0" by simp
  have fb: "flatten (Tensor [50, 200] (replicate 10000 0))
      = Inr (Tensor [50 * 200] (replicate 10000 0))"
    using flatten_two_dim [of "Tensor [50, 200] (replicate 10000 0)" 50 200] by simp
  from imagine_ahead_two_dim_state_raises [OF h1 h2 h3, of "Generator (\<lambda>i. 0) 0"
      "Tensor [50, 200] (replicate 10000 0)" stub_policy stub_transition_model]
  have "imagine_ahead (Generator (\<lambda>i. 0) 0) (Tensor [50, 30] (replicate 1500 0))
       (Tensor [50, 200] (replicate 10000 0)) stub_policy stub_transition_model 50
     = Inl IndexError"
    unfolding fb by (simp add: stub_policy_def detach_def)
  with h1 h2 h3 show ?thesis by blast
qed

text \<open>
  C3, as the code has it. With horizon \<open>T = 1\<close> the loop body never runs, and
  \<open>imagine_ahead\<close> raises: when \<open>flatten\<close> accepts both inputs, the buffers hold only the
  initial belief and state, \<^verbatim>\<open>beliefs[1:]\<close> is the empty list, and stacking it is refused.
  No output sequences are returned. The claim that the four outputs are empty and no error
  is raised fails at the concrete call of the counterexample.
\<close>

theorem imagine_ahead_horizon_one_counterexample:
  "imagine_ahead (Generator (\<lambda>i. 2) 0) (Tensor [1, 1, 1] [0]) (Tensor [1, 1, 1] [0])
      stub_policy stub_transition_model 1 = Inl RuntimeError"
  by (simp add: imagine_ahead_def flatten_def view_infer_def list_set_def stack0_def Let_def)

theorem imagine_ahead_horizon_one:
  "imagine_ahead g prev_state prev_belief pol tm 1 = Inl RuntimeError \<and>
   imagine_loop pol tm [0..<nat (1 - 1)] st = Inr st \<and>
   stack0 (drop 1 [B0]) = Inl RuntimeError"
  by (simp add: imagine_ahead_def and_then_def flatten_def view_infer_def list_set_def stack0_def
      Let_def split: sum.splits)

theorem imagine_ahead_horizon_one_witness:
  "imagine_ahead (Generator (\<lambda>i. 0) 3) (Tensor [2, 1, 2] [1, 2, 3, 4]) (Tensor [2, 1, 3] [1, 2, 3, 4, 5, 6])
      stub_policy stub_transition_model 1 = Inl RuntimeError \<and>
   stack0 (drop 1 [Tensor [2, 3] [1, 2, 3, 4, 5, 6]]) = Inl RuntimeError"
  using imagine_ahead_horizon_one [of "Generator (\<lambda>i. 0) 3" "Tensor [2, 1, 2] [1, 2, 3, 4]"
      "Tensor [2, 1, 3] [1, 2, 3, 4, 5, 6]" stub_policy stub_transition_model
      _ "Tensor [2, 3] [1, 2, 3, 4, 5, 6]"]
  by simp

text \<open>
  C4, as the code has it. \<open>flatten\<close> merges exactly the first two dimensions into one and
  keeps every later dimension and all entries: a tensor with at least three dimensions, of
  shape \<open>d0 # d1 # rest\<close> with later sizes that are not zero, becomes one of shape
  \<open>(d0 * d1) # rest\<close>. So an input with one extra leading dimension, of shape
  \<open>[d0, d1, f]\<close>, becomes the two-dimensional \<open>[d0 * d1, f]\<close> with the same last size. The
  claim that any number of leading dimensions is collapsed into a two-dimensional result
  fails for the four-dimensional input of the counterexample, whose result is
  three-dimensional.
\<close>

theorem flatten_four_dimensional_counterexample:
  "flatten (Tensor [2, 3, 4, 5] (replicate 120 0)) = Inr (Tensor [6, 4, 5] (replicate 120 0)) \<and>
   length (shape (Tensor [6, 4, 5] (replicate 120 0))) \<noteq> 2"
  by (simp add: flatten_def view_infer_def)

theorem flatten_merges_first_two:
  assumes "rest \<noteq> []" and "prod_list rest \<noteq> 0"
  shows "flatten (Tensor (d0 # d1 # rest) xs) = Inr (Tensor ((d0 * d1) # rest) xs)"
  using assms by (simp add: flatten_def view_infer_def)

theorem flatten_merges_first_two_witness:
  "[4 :: nat] \<noteq> [] \<and> prod_list [4 :: nat] \<noteq> 0 \<and>
   flatten (Tensor [2, 3, 4] (replicate 24 1)) = Inr (Tensor [6, 4] (replicate 24 1)) \<and>
   length (shape (Tensor [6, 4] (replicate 24 1))) = 2 \<and>
   last (shape (Tensor [6, 4] (replicate 24 1))) = last (shape (Tensor [2, 3, 4] (replicate 24 1)))"
proof -
  have h1: "[4 :: nat] \<noteq> []" by simp
  have h2: "prod_list [4 :: nat] \<noteq> 0" by simp
  from flatten_merges_first_two [OF h1 h2, of 2 3 "replicate 24 1"] h1 h2 show ?thesis by simp
qed



section \<open>Properties of the gradient scopes\<close>

lemma fold_append_modules:
  "fold (\<lambda>module model_parameters. model_parameters @ module) ms acc = acc @ concat ms"
  by (induction ms arbitrary: acc) simp_all

lemma get_parameters_concat: "get_parameters ms = concat ms"
  by (simp add: get_parameters_def fold_append_modules)

lemma restore_flags_snapshot:
  "length pre = k \<Longrightarrow>
   restore_flags (enumerate k ps) (pre @ map s0 ps) s
     = (None, \<lambda>p. if p \<in> set ps then s0 p else s p)"
proof (induction ps arbitrary: k pre s)
  case Nil
  then show ?case by simp
next
  case (Cons q qs)
  have len: "length (pre @ [s0 q]) = Suc k" using Cons.prems by simp
  have "restore_flags (enumerate k (q # qs)) (pre @ map s0 (q # qs)) s
      = restore_flags (enumerate (Suc k) qs) ((pre @ [s0 q]) @ map s0 qs) (s(q := s0 q))"
    using Cons.prems by (simp add: nth_append)
  also have "\<dots> = (None, \<lambda>p. if p \<in> set qs then s0 p else (s(q := s0 q)) p)"
    by (rule Cons.IH [OF len])
  also have "(\<lambda>p. if p \<in> set qs then s0 p else (s(q := s0 q)) p)
      = (\<lambda>p. if p \<in> set (q # qs) then s0 p else s p)"
    by auto
  finally show ?case .
qed

lemma scope_exit_restores:
  "scope_exit (scope_init ms s0) s
     = (None, \<lambda>p. if p \<in> set (get_parameters ms) then s0 p else s p)"
  using restore_flags_snapshot [of "[]" 0 "get_parameters ms" s0 s]
  by (simp add: scope_exit_def scope_init_def)

lemma with_scope_restores:
  "with_scope enter ms body s
     = (fst (body (enter (scope_init ms s) s)),
        \<lambda>p. if p \<in> set (get_parameters ms) then s p
            else snd (body (enter (scope_init ms s) s)) p)"
  by (simp add: with_scope_def Let_def scope_exit_restores split: prod.splits)

text \<open>
  C8. For any modules and any initial flags, the \<^verbatim>\<open>with\<close> statement of
  \<open>FreezeParameters\<close> and of \<open>ActivateParameters\<close> leaves every parameter of the modules
  with the flag it had before the scope, whatever the body did to the flags and whether the
  body completed or raised; an exception of the body leaves the statement unchanged.
\<close>

theorem scope_round_trip:
  "(\<forall>p\<in>set (get_parameters ms).
       snd (with_FreezeParameters ms body s) p = s p \<and>
       snd (with_ActivateParameters ms body s) p = s p) \<and>
   fst (with_FreezeParameters ms body s)
     = fst (body (FreezeParameters_enter (scope_init ms s) s)) \<and>
   fst (with_ActivateParameters ms body s)
     = fst (body (ActivateParameters_enter (scope_init ms s) s))"
  by (simp add: with_FreezeParameters_def with_ActivateParameters_def with_scope_restores)

theorem scope_round_trip_witness:
  "get_parameters [[0, 1], [1, 2]] = [0, 1, 1, 2] \<and>
   snd (with_FreezeParameters [[0, 1], [1, 2]]
          (\<lambda>s. (Some RuntimeError, s(0 := True, 2 := False, 7 := True))) (\<lambda>p. p = 1 \<or> p = 2)) 0
     = False \<and>
   snd (with_FreezeParameters [[0, 1], [1, 2]]
          (\<lambda>s. (Some RuntimeError, s(0 := True, 2 := False, 7 := True))) (\<lambda>p. p = 1 \<or> p = 2)) 1
     = True \<and>
   snd (with_ActivateParameters [[0, 1], [1, 2]]
          (\<lambda>s. (Some RuntimeError, s(0 := True, 2 := False, 7 := True))) (\<lambda>p. p = 1 \<or> p = 2)) 2
     = True \<and>
   fst (with_FreezeParameters [[0, 1], [1, 2]]
          (\<lambda>s. (Some RuntimeError, s(0 := True, 2 := False, 7 := True))) (\<lambda>p. p = 1 \<or> p = 2))
     = Some RuntimeError \<and>
   fst (with_ActivateParameters [[0, 1], [1, 2]]
          (\<lambda>s. (None, s(0 := True, 2 := False, 7 := True))) (\<lambda>p. p = 1 \<or> p = 2))
     = None"
proof -
  have ps: "get_parameters [[0, 1], [1, 2]] = [0, 1, 1, 2]"
    by (simp add: get_parameters_def)
  from scope_round_trip [of "[[0, 1], [1, 2]]"
      "\<lambda>s. (Some RuntimeError, s(0 := True, 2 := False, 7 := True))" "\<lambda>p. p = 1 \<or> p = 2"]
    scope_round_trip [of "[[0, 1], [1, 2]]"
      "\<lambda>s. (None, s(0 := True, 2 := False, 7 := True))" "\<lambda>p. p = 1 \<or> p = 2"]
  show ?thesis unfolding ps by simp
qed


end
